theory Spec2Isabelle
  imports Complex_Main "HOL-Library.Option_ord" "HOL-Library.Multiset"
begin

section \<open>Data model (app/models.py)\<close>

text \<open>
  The ORM classes \<open>Movie\<close> and \<open>Rating\<close> as records. A nullable column is an
  \<open>option\<close>; Python floats are idealised as \<open>real\<close>, so every statement about a
  score is a statement about exact arithmetic. The primary key \<open>Movie.id\<close> is the
  field \<open>id_movie\<close> (\<open>id\<close> is the identity function of HOL).
\<close>

record Movie =
  id_movie :: int
  title :: "string option"
  genres :: "string option"
  overview :: "string option"
  year :: "int option"
  poster_url :: "string option"
  popularity :: "real option"

record Rating =
  user_id :: int
  movie_id :: int
  rating :: real

text \<open>
  The database session as the recommender sees it: the rows of the two tables, in the
  order in which \<open>query(...).all()\<close> returns them.
\<close>

record Session =
  movies_table :: "Movie list"
  ratings_table :: "Rating list"

datatype py_error = ValueError | IndexError

section \<open>Python dictionaries that are iterated\<close>

text \<open>
  A \<open>dict\<close> whose iteration order is observed is an association list with distinct
  keys: storing under a key that is present overwrites the value in place, storing
  under a new key appends, and \<open>pop(k, None)\<close> removes the key if it is there.
\<close>

fun dict_set :: "'k \<Rightarrow> 'v \<Rightarrow> ('k \<times> 'v) list \<Rightarrow> ('k \<times> 'v) list" where
  "dict_set k v [] = [(k, v)]"
| "dict_set k v (kv # d) = (if fst kv = k then (k, v) # d else kv # dict_set k v d)"

definition dict_pop :: "'k \<Rightarrow> ('k \<times> 'v) list \<Rightarrow> ('k \<times> 'v) list" where
  "dict_pop k d = filter (\<lambda>kv. fst kv \<noteq> k) d"

section \<open>ContentRecommender (app/recommender.py)\<close>

text \<open>
  The two scikit-learn entry points are parameters of the model:
  \<open>fit_transform\<close> is \<open>TfidfVectorizer.fit_transform\<close> on a corpus (it may raise, and
  otherwise returns the rows of the document-term matrix), and \<open>cosine\<close> is the
  similarity of two rows, so that \<open>cosine_similarity(X, Y)[i][j] = cosine (X[i]) (Y[j])\<close>.
\<close>

record sklearn =
  fit_transform :: "string list \<Rightarrow> py_error + real list list"
  cosine :: "real list \<Rightarrow> real list \<Rightarrow> real"

record ContentRecommender =
  movie_ids :: "int list"
  tfidf_matrix :: "real list list option"

definition or_empty :: "string option \<Rightarrow> string" where
  "or_empty s = (case s of None \<Rightarrow> [] | Some t \<Rightarrow> t)"

definition or_zero :: "real option \<Rightarrow> real" where
  "or_zero p = (case p of None \<Rightarrow> 0 | Some x \<Rightarrow> x)"

fun join :: "string \<Rightarrow> string list \<Rightarrow> string" where
  "join sep [] = []"
| "join sep [x] = x"
| "join sep (x # y # ys) = x @ sep @ join sep (y # ys)"

definition build_corpus_row :: "Movie \<Rightarrow> string" where
  "build_corpus_row m =
     (let fields = [or_empty (title m), or_empty (genres m), or_empty (overview m)]
      in join '' '' fields)"

text \<open>
  \<open>fit\<close> assigns \<open>movie_ids\<close> first and the matrix afterwards; when the vectorizer
  raises, the exception leaves with \<open>movie_ids\<close> already replaced.
\<close>

definition fit :: "sklearn \<Rightarrow> ContentRecommender \<Rightarrow> Movie list \<Rightarrow> (py_error + unit) \<times> ContentRecommender" where
  "fit lib self ms =
     (let self1 = self\<lparr>movie_ids := map id_movie ms\<rparr>;
          corpus = map build_corpus_row ms
      in if length corpus = 0 then (Inr (), self1\<lparr>tfidf_matrix := None\<rparr>)
         else (case fit_transform lib corpus of
                 Inl e \<Rightarrow> (Inl e, self1)
               | Inr M \<Rightarrow> (Inr (), self1\<lparr>tfidf_matrix := Some M\<rparr>)))"

subsection \<open>scores_for_movies\<close>

definition id_to_index_of :: "int list \<Rightarrow> (int \<rightharpoonup> nat)" where
  "id_to_index_of ids = fold (\<lambda>(idx, mid) d. d(mid \<mapsto> idx)) (enumerate 0 ids) Map.empty"

text \<open>\<open>M[indices]\<close>: row selection, an IndexError when an index is past the last row.\<close>

fun take_rows :: "real list list \<Rightarrow> nat list \<Rightarrow> py_error + real list list" where
  "take_rows M [] = Inr []"
| "take_rows M (i # is) =
     (if i < length M
      then (case take_rows M is of Inl e \<Rightarrow> Inl e | Inr rs \<Rightarrow> Inr (M ! i # rs))
      else Inl IndexError)"

definition cosine_similarity :: "sklearn \<Rightarrow> real list list \<Rightarrow> real list list \<Rightarrow> real list list" where
  "cosine_similarity lib X Y = map (\<lambda>x. map (cosine lib x) Y) X"

definition eps :: real where
  "eps = 1 / 10 ^ 12"

definition normalize_weights :: "real list \<Rightarrow> real list" where
  "normalize_weights ws = map (\<lambda>x. x / (sum_list ws + eps)) ws"

definition dot :: "real list \<Rightarrow> real list \<Rightarrow> real" where
  "dot xs ys = sum_list (map2 (*) xs ys)"

text \<open>\<open>sims @ w\<close>: numpy raises ValueError unless every row of \<open>sims\<close> is as long as \<open>w\<close>.\<close>

definition matvec :: "real list list \<Rightarrow> real list \<Rightarrow> py_error + real list" where
  "matvec sims w =
     (if list_all (\<lambda>row. length row = length w) sims
      then Inr (map (\<lambda>row. dot row w) sims)
      else Inl ValueError)"

text \<open>
  The comprehension \<open>{mid: float(scores[i]) for i, mid in enumerate(self.movie_ids)}\<close>,
  an IndexError when \<open>movie_ids\<close> is longer than \<open>scores\<close>.
\<close>

fun build_result :: "real list \<Rightarrow> (nat \<times> int) list \<Rightarrow> (int \<times> real) list \<Rightarrow> py_error + (int \<times> real) list" where
  "build_result scores [] d = Inr d"
| "build_result scores ((i, mid) # r) d =
     (if i < length scores then build_result scores r (dict_set mid (scores ! i) d)
      else Inl IndexError)"

definition scores_for_movies ::
  "sklearn \<Rightarrow> ContentRecommender \<Rightarrow> int list \<Rightarrow> real list option \<Rightarrow> py_error + (int \<times> real) list" where
  "scores_for_movies lib self liked_movie_ids weights =
     (case tfidf_matrix self of
        None \<Rightarrow> Inr []
      | Some M \<Rightarrow>
          if movie_ids self = [] then Inr []
          else
            let id_to_index = id_to_index_of (movie_ids self);
                indices = List.map_filter id_to_index liked_movie_ids
            in if indices = [] then Inr []
               else (case take_rows M indices of
                       Inl e \<Rightarrow> Inl e
                     | Inr Y \<Rightarrow>
                         let sims = cosine_similarity lib M Y;
                             ws = (case weights of None \<Rightarrow> replicate (length indices) 1 | Some l \<Rightarrow> l);
                             w = normalize_weights ws
                         in (case matvec sims w of
                               Inl e \<Rightarrow> Inl e
                             | Inr scores \<Rightarrow>
                                 (case build_result scores (enumerate 0 (movie_ids self)) [] of
                                    Inl e \<Rightarrow> Inl e
                                  | Inr result \<Rightarrow> Inr (fold dict_pop liked_movie_ids result)))))"

subsection \<open>Sorting in descending order\<close>

text \<open>
  \<open>sorted(xs, key=f, reverse=True)\<close> and \<open>xs.sort(key=f, reverse=True)\<close> are stable:
  elements with equal keys keep their original order. The same function stands for
  \<open>ORDER BY ... DESC\<close>, where the order among equal keys is the database's choice.
\<close>

fun insort_desc :: "('a \<Rightarrow> 'k::linorder) \<Rightarrow> 'a \<Rightarrow> 'a list \<Rightarrow> 'a list" where
  "insort_desc f x [] = [x]"
| "insort_desc f x (y # ys) = (if f y \<le> f x then x # y # ys else y # insort_desc f x ys)"

definition sort_desc :: "('a \<Rightarrow> 'k::linorder) \<Rightarrow> 'a list \<Rightarrow> 'a list" where
  "sort_desc f xs = foldr (insort_desc f) xs []"

section \<open>The cached model and recommend_for_user\<close>

text \<open>
  The module-level \<open>_recommender\<close> is the field \<open>recommender\<close> of the process state.
  Two counters record how often \<open>fit\<close> and \<open>scores_for_movies\<close> have been called;
  they are observations of the calls the source makes and influence nothing.
\<close>

record process =
  recommender :: ContentRecommender
  fit_calls :: nat
  score_calls :: nat

definition initial_recommender :: ContentRecommender where
  "initial_recommender = \<lparr>movie_ids = [], tfidf_matrix = None\<rparr>"

definition initial_process :: process where
  "initial_process = \<lparr>recommender = initial_recommender, fit_calls = 0, score_calls = 0\<rparr>"

text \<open>
  \<open>ensure_model\<close> returns the one \<open>_recommender\<close> object, which after the call is
  the field \<open>recommender\<close> of the returned state; an exception of \<open>fit\<close> passes through.
\<close>

definition ensure_model :: "sklearn \<Rightarrow> Session \<Rightarrow> process \<Rightarrow> (py_error + unit) \<times> process" where
  "ensure_model lib db st =
     (let ms = movies_table db
      in if tfidf_matrix (recommender st) = None \<or> length (movie_ids (recommender st)) \<noteq> length ms
         then (case fit lib (recommender st) ms of
                 (r, self') \<Rightarrow> (r, st\<lparr>recommender := self', fit_calls := Suc (fit_calls st)\<rparr>))
         else (Inr (), st))"

text \<open>
  \<open>ORDER BY popularity DESC\<close>: MySQL puts NULL after every value in descending order,
  which is the order of \<open>option\<close> with \<open>None\<close> least.
\<close>

definition order_by_popularity_desc :: "Movie list \<Rightarrow> Movie list" where
  "order_by_popularity_desc ms = sort_desc popularity ms"

text \<open>
  The \<open>limit\<close> of a request is a natural number here: the claims are about counts of
  results, and a negative \<open>limit\<close> is outside them.
\<close>

definition popularity_ranking :: "Session \<Rightarrow> nat \<Rightarrow> (Movie \<times> real) list" where
  "popularity_ranking db limit =
     (let ms = take limit (order_by_popularity_desc (movies_table db))
      in map (\<lambda>m. (m, or_zero (popularity m))) ms)"

definition user_ratings :: "Session \<Rightarrow> int \<Rightarrow> Rating list" where
  "user_ratings db uid = filter (\<lambda>r. user_id r = uid) (ratings_table db)"

definition top_ratings :: "Rating list \<Rightarrow> Rating list" where
  "top_ratings rs =
     (let ratings_sorted = sort_desc rating rs
      in take (min 10 (length ratings_sorted)) ratings_sorted)"

definition pop_map_of :: "Movie list \<Rightarrow> (int \<rightharpoonup> real)" where
  "pop_map_of ms = fold (\<lambda>m d. d(id_movie m \<mapsto> or_zero (popularity m))) ms Map.empty"

definition blend :: "(int \<rightharpoonup> real) \<Rightarrow> (int \<times> real) list \<Rightarrow> (int \<times> real) list" where
  "blend pop_map score_map =
     (let blended = map (\<lambda>(mid, s). (mid, s * 0.9 + 0.1 * (case pop_map mid of None \<Rightarrow> 0 | Some p \<Rightarrow> p))) score_map
      in sort_desc snd blended)"

definition id_to_movie_of :: "Movie list \<Rightarrow> (int \<rightharpoonup> Movie)" where
  "id_to_movie_of ms = fold (\<lambda>m d. d(id_movie m \<mapsto> m)) ms Map.empty"

definition resolve :: "Session \<Rightarrow> nat \<Rightarrow> (int \<times> real) list \<Rightarrow> (Movie \<times> real) list" where
  "resolve db limit blended =
     (let wanted = map fst (take limit blended);
          id_to_movie = id_to_movie_of (filter (\<lambda>m. id_movie m \<in> set wanted) (movies_table db))
      in take limit (List.map_filter (\<lambda>(mid, score). map_option (\<lambda>m. (m, score)) (id_to_movie mid)) blended))"

definition recommend_for_user ::
  "sklearn \<Rightarrow> Session \<Rightarrow> process \<Rightarrow> int \<Rightarrow> nat \<Rightarrow> (py_error + (Movie \<times> real) list) \<times> process" where
  "recommend_for_user lib db st uid limit =
     (let ratings = user_ratings db uid
      in if ratings = [] then (Inr (popularity_ranking db limit), st)
         else
           let top = top_ratings ratings;
               liked_ids = map movie_id top;
               weights = map rating top
           in (case ensure_model lib db st of
                 (Inl e, st1) \<Rightarrow> (Inl e, st1)
               | (Inr u, st1) \<Rightarrow>
                   let st2 = st1\<lparr>score_calls := Suc (score_calls st1)\<rparr>
                   in (case scores_for_movies lib (recommender st1) liked_ids (Some weights) of
                         Inl e \<Rightarrow> (Inl e, st2)
                       | Inr score_map \<Rightarrow>
                           if score_map = [] then (Inr (popularity_ranking db limit), st2)
                           else
                             let pop_map = pop_map_of (movies_table db);
                                 blended = blend pop_map score_map
                             in (Inr (resolve db limit blended), st2))))"

text \<open>
  The score map that \<open>recommend_for_user\<close> obtains for a user who has ratings: the
  call of \<open>scores_for_movies\<close> on the model that \<open>ensure_model\<close> leaves behind, or the
  exception that one of the two calls raised.
\<close>

definition personal_scores :: "sklearn \<Rightarrow> Session \<Rightarrow> process \<Rightarrow> int \<Rightarrow> py_error + (int \<times> real) list" where
  "personal_scores lib db st uid =
     (let top = top_ratings (user_ratings db uid)
      in (case ensure_model lib db st of
            (Inl e, st1) \<Rightarrow> Inl e
          | (Inr u, st1) \<Rightarrow>
              scores_for_movies lib (recommender st1) (map movie_id top) (Some (map rating top))))"


section \<open>A small library instance and catalog for concrete evaluation\<close>

definition demo_sklearn :: sklearn where
  "demo_sklearn =
     \<lparr>fit_transform = (\<lambda>docs. Inr (map (\<lambda>d. [real (length d), 1]) docs)),
      cosine = dot\<rparr>"

definition mk_movie :: "int \<Rightarrow> string \<Rightarrow> real option \<Rightarrow> Movie" where
  "mk_movie i t p =
     \<lparr>id_movie = i, title = Some t, genres = None, overview = None, year = None,
      poster_url = None, popularity = p\<rparr>"

definition mk_rating :: "int \<Rightarrow> int \<Rightarrow> real \<Rightarrow> Rating" where
  "mk_rating u m r = \<lparr>user_id = u, movie_id = m, rating = r\<rparr>"

definition demo_catalog :: "Movie list" where
  "demo_catalog =
     [mk_movie 1 ''Space War'' (Some 5), mk_movie 2 ''Space Battle'' (Some 1),
      mk_movie 3 ''Romance Story'' (Some 9)]"

definition demo_db :: Session where
  "demo_db = \<lparr>movies_table = demo_catalog,
      ratings_table = [mk_rating 1 1 5, mk_rating 2 1 4, mk_rating 2 2 3, mk_rating 2 3 5]\<rparr>"

definition fitted_process :: process where
  "fitted_process =
     \<lparr>recommender = \<lparr>movie_ids = [1, 2, 3], tfidf_matrix = Some [[11, 1], [14, 1], [15, 1]]\<rparr>,
      fit_calls = 1, score_calls = 0\<rparr>"

definition later_db :: Session where
  "later_db = \<lparr>movies_table = [mk_movie 1 ''Space War'' (Some 5), mk_movie 2 ''Space Battle'' (Some 1),
        mk_movie 4 ''Quiet Town'' None],
      ratings_table = [mk_rating 1 1 5]\<rparr>"


section \<open>Dictionary facts\<close>

lemma keys_dict_pop: "fst ` set (dict_pop k d) = fst ` set d - {k}"
  by (auto simp: dict_pop_def)

lemma keys_fold_dict_pop: "fst ` set (fold dict_pop ks d) = fst ` set d - set ks"
  by (induction ks arbitrary: d) (auto simp: keys_dict_pop)

lemma mset_insort_desc: "mset (insort_desc f x xs) = add_mset x (mset xs)"
  by (induction xs) auto

lemma mset_sort_desc: "mset (sort_desc f xs) = mset xs"
  unfolding sort_desc_def by (induction xs) (auto simp: mset_insort_desc)


lemma length_sort_desc: "length (sort_desc f xs) = length xs"
  using mset_sort_desc [of f xs] by (metis size_mset)

lemma set_insort_desc: "set (insort_desc f x xs) = insert x (set xs)"
  using mset_insort_desc [of f x xs] by (metis set_mset_add_mset_insert set_mset_mset)

lemma sorted_insort_desc:
  "sorted_wrt (\<lambda>a b. f b \<le> f a) xs \<Longrightarrow> sorted_wrt (\<lambda>a b. f b \<le> f a) (insort_desc f x xs)"
  by (induction xs) (auto simp: set_insort_desc)

lemma sorted_sort_desc: "sorted_wrt (\<lambda>a b. f b \<le> f a) (sort_desc f xs)"
  unfolding sort_desc_def by (induction xs) (auto simp: sorted_insort_desc)

lemma distinct_keys_sort_desc:
  "distinct (map fst xs) \<Longrightarrow> distinct (map fst (sort_desc f xs))"
proof -
  assume d: "distinct (map fst xs)"
  have "mset (map fst (sort_desc f xs)) = mset (map fst xs)"
    by (simp add: mset_sort_desc)
  then show ?thesis using d by (metis mset_eq_imp_distinct_iff)
qed

lemma keys_dict_set: "fst ` set (dict_set k v d) = insert k (fst ` set d)"
  by (induction d) auto

lemma distinct_dict_set: "distinct (map fst d) \<Longrightarrow> distinct (map fst (dict_set k v d))"
proof (induction d)
  case Nil
  then show ?case by simp
next
  case (Cons kv d)
  then show ?case
    using keys_dict_set [of k v d] by (auto simp: image_iff)
qed

lemma distinct_dict_pop: "distinct (map fst d) \<Longrightarrow> distinct (map fst (dict_pop k d))"
  by (simp add: dict_pop_def distinct_map_filter)

lemma distinct_fold_dict_pop: "distinct (map fst d) \<Longrightarrow> distinct (map fst (fold dict_pop ks d))"
  by (induction ks arbitrary: d) (auto simp: distinct_dict_pop)

lemma distinct_build_result:
  "build_result scores es d = Inr r \<Longrightarrow> distinct (map fst d) \<Longrightarrow> distinct (map fst r)"
  by (induction scores es d rule: build_result.induct) (auto simp: distinct_dict_set split: if_splits)

lemma distinct_scores_for_movies:
  assumes "scores_for_movies lib self liked_ids weights = Inr result"
  shows "distinct (map fst result)"
proof -
  from assms have "result = [] \<or> (\<exists>scores d. build_result scores (enumerate 0 (movie_ids self)) [] = Inr d \<and> result = fold dict_pop liked_ids d)"
    by (auto simp: scores_for_movies_def Let_def split: option.splits if_splits sum.splits)
  then show ?thesis
    using distinct_build_result distinct_fold_dict_pop by fastforce
qed






section \<open>Sorting, blending and resolution facts\<close>

lemma recommend_personal:
  "user_ratings db uid \<noteq> [] \<Longrightarrow>
   fst (recommend_for_user lib db st uid limit) =
     (case personal_scores lib db st uid of
        Inl e \<Rightarrow> Inl e
      | Inr score_map \<Rightarrow>
          if score_map = [] then Inr (popularity_ranking db limit)
          else Inr (resolve db limit (blend (pop_map_of (movies_table db)) score_map)))"
  by (simp add: recommend_for_user_def personal_scores_def Let_def split: prod.splits sum.splits)










lemma set_map_filter_iff: "y \<in> set (List.map_filter f xs) \<longleftrightarrow> (\<exists>x\<in>set xs. f x = Some y)"
  by (induction xs) (auto simp: List.map_filter_simps split: option.splits)



lemma sorted_order_by_popularity:
  "sorted_wrt (\<lambda>a b. popularity b \<le> popularity a) (order_by_popularity_desc ms)"
  by (simp add: order_by_popularity_desc_def sorted_sort_desc)






section \<open>What scores_for_movies computes on a model with one row per identifier\<close>

text \<open>
  With one matrix row per identifier and a liked identifier in the model, the call returns
  exactly when there is one weight per liked identifier found in the model (or no weights):
  then the entry of an item that is not liked is the dot product of its similarities to
  those liked items with the normalised weights. Otherwise \<open>sims @ w\<close> raises.
\<close>

lemma id_to_index_of_Nil: "id_to_index_of [] = Map.empty"
  by (simp add: id_to_index_of_def)

lemma id_to_index_of_snoc:
  "id_to_index_of (ids @ [x]) = (id_to_index_of ids)(x \<mapsto> length ids)"
  by (simp add: id_to_index_of_def enumerate_append_eq)

lemma id_to_index_of_Some:
  "id_to_index_of ids mid = Some i \<Longrightarrow> i < length ids \<and> ids ! i = mid"
proof (induction ids arbitrary: i rule: rev_induct)
  case Nil
  then show ?case by (simp add: id_to_index_of_def)
next
  case (snoc x xs)
  then show ?case
    by (auto simp: id_to_index_of_snoc nth_append split: if_splits)
qed

lemma id_to_index_of_None_iff: "id_to_index_of ids x = None \<longleftrightarrow> x \<notin> set ids"
  by (induction ids rule: rev_induct) (auto simp: id_to_index_of_snoc id_to_index_of_Nil)

lemma liked_indices_bound:
  "i \<in> set (List.map_filter (id_to_index_of ids) liked) \<Longrightarrow> i < length ids"
  by (auto simp: set_map_filter_iff dest: id_to_index_of_Some)

lemma liked_indices_empty_iff:
  "List.map_filter (id_to_index_of ids) liked = [] \<longleftrightarrow> set liked \<inter> set ids = {}"
proof -
  have "List.map_filter (id_to_index_of ids) liked = [] \<longleftrightarrow>
        (\<forall>x\<in>set liked. id_to_index_of ids x = None)"
    by (induction liked) (auto split: option.splits)
  also have "\<dots> \<longleftrightarrow> set liked \<inter> set ids = {}"
    by (auto simp: id_to_index_of_None_iff)
  finally show ?thesis .
qed

lemma take_rows_ok:
  "(\<And>i. i \<in> set is \<Longrightarrow> i < length M) \<Longrightarrow> take_rows M is = Inr (map ((!) M) is)"
  by (induction "is") auto

lemma matvec_cosine_ok:
  "length w = length Y \<Longrightarrow>
   matvec (cosine_similarity lib M Y) w = Inr (map (\<lambda>x. dot (map (cosine lib x) Y) w) M)"
  by (simp add: matvec_def cosine_similarity_def list_all_iff)

lemma matvec_cosine_mismatch:
  "length w \<noteq> length Y \<Longrightarrow> M \<noteq> [] \<Longrightarrow> matvec (cosine_similarity lib M Y) w = Inl ValueError"
  by (cases M) (auto simp: matvec_def cosine_similarity_def)

lemma build_result_snoc:
  "build_result scores (es @ [(i, mid)]) d =
     (case build_result scores es d of
        Inl e \<Rightarrow> Inl e
      | Inr r \<Rightarrow> if i < length scores then Inr (dict_set mid (scores ! i) r) else Inl IndexError)"
  by (induction scores es d rule: build_result.induct) auto

lemma map_of_dict_set: "map_of (dict_set k v d) = (map_of d)(k \<mapsto> v)"
  by (induction d) (auto simp: fun_eq_iff)

lemma map_of_dict_pop: "map_of (dict_pop k d) = (map_of d)(k := None)"
  by (induction d) (auto simp: dict_pop_def fun_eq_iff)

lemma map_of_fold_dict_pop:
  "map_of (fold dict_pop ks d) mid = (if mid \<in> set ks then None else map_of d mid)"
  by (induction ks arbitrary: d) (auto simp: map_of_dict_pop)

lemma build_result_ok:
  "length ids \<le> length scores \<Longrightarrow>
   \<exists>r. build_result scores (enumerate 0 ids) [] = Inr r \<and>
       (\<forall>mid. map_of r mid = map_option ((!) scores) (id_to_index_of ids mid))"
proof (induction ids rule: rev_induct)
  case Nil
  then show ?case by (simp add: id_to_index_of_Nil)
next
  case (snoc x xs)
  then obtain r where r: "build_result scores (enumerate 0 xs) [] = Inr r"
    and m: "\<And>mid. map_of r mid = map_option ((!) scores) (id_to_index_of xs mid)"
    by auto
  from snoc.prems have lt: "length xs < length scores" by simp
  have "build_result scores (enumerate 0 (xs @ [x])) [] = Inr (dict_set x (scores ! length xs) r)"
    using r lt by (simp add: enumerate_append_eq build_result_snoc)
  moreover have "map_of (dict_set x (scores ! length xs) r) mid
      = map_option ((!) scores) (id_to_index_of (xs @ [x]) mid)" for mid
    using m [of mid] by (simp add: map_of_dict_set id_to_index_of_snoc)
  ultimately show ?case by blast
qed

lemma build_result_short:
  "length scores < length ids \<Longrightarrow> build_result scores (enumerate 0 ids) [] = Inl IndexError"
proof (induction ids rule: rev_induct)
  case Nil
  then show ?case by simp
next
  case (snoc x xs)
  show ?case
  proof (cases "length scores < length xs")
    case True
    with snoc.IH show ?thesis by (simp add: enumerate_append_eq build_result_snoc)
  next
    case False
    with snoc.prems have "length xs = length scores" by simp
    then obtain r where "build_result scores (enumerate 0 xs) [] = Inr r"
      using build_result_ok [of xs scores] by auto
    with \<open>length xs = length scores\<close> show ?thesis
      by (simp add: enumerate_append_eq build_result_snoc)
  qed
qed


lemma scores_for_movies_aligned:
  assumes M: "tfidf_matrix self = Some M"
    and len: "length M = length (movie_ids self)"
    and pres: "set liked \<inter> set (movie_ids self) \<noteq> {}"
    and ind: "indices = List.map_filter (id_to_index_of (movie_ids self)) liked"
    and ws: "ws = (case weights of None \<Rightarrow> replicate (length indices) 1 | Some l \<Rightarrow> l)"
    and al: "length ws = length indices"
  shows "\<exists>result. scores_for_movies lib self liked weights = Inr result \<and>
           distinct (map fst result) \<and>
           (\<forall>mid. map_of result mid =
              (if mid \<in> set liked then None
               else map_option (\<lambda>i. dot (map (cosine lib (M ! i)) (map ((!) M) indices))
                                       (normalize_weights ws))
                      (id_to_index_of (movie_ids self) mid)))"
proof -
  let ?ids = "movie_ids self"
  let ?Y = "map ((!) M) indices"
  let ?w = "normalize_weights ws"
  let ?scores = "map (\<lambda>x. dot (map (cosine lib x) ?Y) ?w) M"
  have ne: "?ids \<noteq> []" using pres by auto
  have ine: "indices \<noteq> []" using pres by (simp add: ind liked_indices_empty_iff)
  have rows: "take_rows M indices = Inr ?Y"
    by (rule take_rows_ok) (simp add: ind len liked_indices_bound)
  have mv: "matvec (cosine_similarity lib M ?Y) ?w = Inr ?scores"
    by (rule matvec_cosine_ok) (simp add: normalize_weights_def al)
  obtain r where r: "build_result ?scores (enumerate 0 ?ids) [] = Inr r"
    and mr: "\<And>mid. map_of r mid = map_option ((!) ?scores) (id_to_index_of ?ids mid)"
    using build_result_ok [of ?ids ?scores] len by auto
  have res: "scores_for_movies lib self liked weights = Inr (fold dict_pop liked r)"
  proof (cases weights)
    case None
    then have "ws = replicate (length indices) 1" using ws by simp
    then show ?thesis
      using M ne ine rows mv r None by (simp add: scores_for_movies_def Let_def ind [symmetric])
  next
    case (Some l)
    then have "ws = l" using ws by simp
    then show ?thesis
      using M ne ine rows mv r Some by (simp add: scores_for_movies_def Let_def ind [symmetric])
  qed
  have val: "map_option ((!) ?scores) (id_to_index_of ?ids mid)
      = map_option (\<lambda>i. dot (map (cosine lib (M ! i)) ?Y) ?w) (id_to_index_of ?ids mid)" for mid
  proof (cases "id_to_index_of ?ids mid")
    case None
    then show ?thesis by simp
  next
    case (Some i)
    then have "i < length M" using id_to_index_of_Some [of ?ids mid i] len by simp
    with Some show ?thesis by simp
  qed
  have "map_of (fold dict_pop liked r) mid =
      (if mid \<in> set liked then None
       else map_option (\<lambda>i. dot (map (cosine lib (M ! i)) ?Y) ?w) (id_to_index_of ?ids mid))" for mid
    using val [of mid] by (simp only: map_of_fold_dict_pop mr)
  moreover have "distinct (map fst (fold dict_pop liked r))"
    using res by (rule distinct_scores_for_movies)
  ultimately show ?thesis using res by blast
qed

lemma scores_for_movies_misaligned:
  assumes M: "tfidf_matrix self = Some M"
    and len: "length M = length (movie_ids self)"
    and pres: "set liked \<inter> set (movie_ids self) \<noteq> {}"
    and al: "length ws \<noteq> length (List.map_filter (id_to_index_of (movie_ids self)) liked)"
  shows "scores_for_movies lib self liked (Some ws) = Inl ValueError"
proof -
  let ?ids = "movie_ids self"
  let ?indices = "List.map_filter (id_to_index_of ?ids) liked"
  have ne: "?ids \<noteq> []" using pres by auto
  then have Mne: "M \<noteq> []" using len by auto
  have ine: "?indices \<noteq> []" using pres by (simp add: liked_indices_empty_iff)
  have rows: "take_rows M ?indices = Inr (map ((!) M) ?indices)"
    by (rule take_rows_ok) (simp add: len liked_indices_bound)
  have "matvec (cosine_similarity lib M (map ((!) M) ?indices)) (normalize_weights ws) = Inl ValueError"
    by (rule matvec_cosine_mismatch) (simp_all add: normalize_weights_def al Mne)
  then show ?thesis
    using M ne ine rows by (simp add: scores_for_movies_def Let_def)
qed


section \<open>Cache and fit facts\<close>

text \<open>
  After a successful \<open>ensure_model\<close> on a non-empty catalog, the next call on the same
  catalog changes nothing. \<open>fit\<close> raises exactly when the vectorizer raises on the corpus;
  the corpus row of an item without text is two blanks.
\<close>

lemma ensure_model_cached:
  assumes "tfidf_matrix (recommender st) \<noteq> None"
    and "length (movie_ids (recommender st)) = length (movies_table db)"
  shows "ensure_model lib db st = (Inr (), st)"
  using assms by (auto simp: ensure_model_def)

lemma ensure_model_second_call:
  assumes "movies_table db \<noteq> []" and "fst (ensure_model lib db st) = Inr ()"
  shows "ensure_model lib db (snd (ensure_model lib db st)) = (Inr (), snd (ensure_model lib db st))"
proof (rule ensure_model_cached)
  show "tfidf_matrix (recommender (snd (ensure_model lib db st))) \<noteq> None"
    using assms by (auto simp: ensure_model_def fit_def Let_def split: if_splits sum.splits)
  show "length (movie_ids (recommender (snd (ensure_model lib db st)))) = length (movies_table db)"
    using assms by (auto simp: ensure_model_def fit_def Let_def split: if_splits sum.splits)
qed


lemma fit_raises_iff:
  "fst (fit lib self ms) = Inl e \<longleftrightarrow> ms \<noteq> [] \<and> fit_transform lib (map build_corpus_row ms) = Inl e"
  by (auto simp: fit_def Let_def split: sum.splits)

lemma build_corpus_row_no_text:
  "title m = None \<or> title m = Some [] \<Longrightarrow> genres m = None \<Longrightarrow> overview m = None \<Longrightarrow>
   build_corpus_row m = ''  ''"
  by (auto simp: build_corpus_row_def or_empty_def)

section \<open>Evaluation of the concrete instances\<close>

lemmas scorer_defs = scores_for_movies_def id_to_index_of_def List.map_filter_def Let_def
  enumerate_eq_zip cosine_similarity_def matvec_def normalize_weights_def dot_def dict_pop_def

lemmas demo_defs = demo_sklearn_def demo_db_def demo_catalog_def mk_movie_def mk_rating_def
  initial_process_def initial_recommender_def fitted_process_def later_db_def

lemmas recommend_defs = personal_scores_def user_ratings_def top_ratings_def sort_desc_def
  ensure_model_def fit_def build_corpus_row_def or_empty_def

lemma fitted_process_by_fit: "snd (ensure_model demo_sklearn demo_db initial_process) = fitted_process"
  by (simp add: demo_defs recommend_defs)


lemma demo_scores_user2: "personal_scores demo_sklearn demo_db initial_process 2 = Inr []"
  by (simp add: demo_defs recommend_defs scorer_defs)





lemma recommend_cold_start:
  "user_ratings db uid = [] \<Longrightarrow>
   recommend_for_user lib db st uid limit = (Inr (popularity_ranking db limit), st)"
  by (simp add: recommend_for_user_def)

lemma demo_ranking:
  "map (\<lambda>m. (m, or_zero (popularity m))) (take 2 (order_by_popularity_desc (movies_table demo_db)))
     = [(mk_movie 3 ''Romance Story'' (Some 9), 9), (mk_movie 1 ''Space War'' (Some 5), 5)]"
  by (simp add: demo_defs order_by_popularity_desc_def sort_desc_def or_zero_def)



section \<open>Self-exclusion\<close>

text \<open>
  C3. Whatever the model state, the liked identifiers and the weights, when
  \<open>scores_for_movies\<close> returns a mapping, no identifier of \<open>liked_ids\<close> is a key of it,
  whether or not the identifier is in the model's identifier list.
\<close>

theorem C3_liked_absent:
  assumes "scores_for_movies lib self liked_ids weights = Inr result"
    and "mid \<in> set liked_ids"
  shows "mid \<notin> fst ` set result"
proof -
  from assms(1) have "result = [] \<or> (\<exists>d. result = fold dict_pop liked_ids d)"
    by (auto simp: scores_for_movies_def Let_def split: option.splits if_splits sum.splits)
  with assms(2) show ?thesis
    using keys_fold_dict_pop [of liked_ids] by fastforce
qed

theorem C3_liked_absent_witness:
  "scores_for_movies demo_sklearn \<lparr>movie_ids = [1, 2], tfidf_matrix = Some [[1, 0], [0, 1]]\<rparr> [1, 3] None = Inr [(2, 0)]
   \<and> (3::int) \<in> set [1, 3] \<and> (3::int) \<notin> fst ` set [(2::int, 0::real)]"
proof -
  have h: "scores_for_movies demo_sklearn \<lparr>movie_ids = [1, 2], tfidf_matrix = Some [[1, 0], [0, 1]]\<rparr> [1, 3] None = Inr [(2, 0)]"
    by (simp add: scores_for_movies_def demo_sklearn_def id_to_index_of_def List.map_filter_def
        enumerate_eq_zip cosine_similarity_def matvec_def normalize_weights_def dot_def eps_def dict_pop_def)
  have m: "(3::int) \<in> set [1, 3]" by simp
  show ?thesis using h m C3_liked_absent [OF h m] by simp
qed

section \<open>Weights given for liked items that the model does not know\<close>

text \<open>
  C1. \<open>scores_for_movies\<close> is claimed to return a mapping, without raising, for weights
  as long as \<open>liked_ids\<close>, in particular when only some liked identifiers are in the
  model. The source filters \<open>liked_ids\<close> down to the known identifiers but leaves the
  weights as they are: with identifiers 1 and 2 in the model, liked identifiers 1 and 3
  and weights 5 and 4, the similarity matrix has one column, the weight vector two
  entries, and \<open>sims @ w\<close> raises ValueError, whatever the similarity function is.
\<close>

theorem C1_partial_presence_raises:
  "scores_for_movies lib \<lparr>movie_ids = [1, 2], tfidf_matrix = Some [[1, 0], [0, 1]]\<rparr>
     [1, 3] (Some [5, 4]) = Inl ValueError"
  by (simp add: scores_for_movies_def id_to_index_of_def List.map_filter_def
        enumerate_eq_zip cosine_similarity_def matvec_def normalize_weights_def)

text \<open>
  C2. Each score is claimed to be the weighted average of the similarities to the liked
  items, for every liked list with at least one identifier in the model. With
  identifiers 10, 20, 30 in the model, liked identifiers 20 and 99 and weights 4 and 2,
  no score is computed: the call raises ValueError. The same call without weights
  returns, for each remaining item, its similarity to item 20 times the normalised
  weight \<open>1 / (1 + eps)\<close>.
\<close>

theorem C2_weights_not_aligned:
  "scores_for_movies lib \<lparr>movie_ids = [10, 20, 30], tfidf_matrix = Some [[1, 0], [0, 1], [1, 1]]\<rparr>
     [20, 99] (Some [4, 2]) = Inl ValueError
   \<and> scores_for_movies lib \<lparr>movie_ids = [10, 20, 30], tfidf_matrix = Some [[1, 0], [0, 1], [1, 1]]\<rparr>
       [20, 99] None
     = Inr [(10, cosine lib [1, 0] [0, 1] * (1 / (1 + eps))),
            (30, cosine lib [1, 1] [0, 1] * (1 / (1 + eps)))]"
  by (simp add: scores_for_movies_def id_to_index_of_def List.map_filter_def Let_def
        enumerate_eq_zip cosine_similarity_def matvec_def normalize_weights_def dot_def dict_pop_def)

section \<open>The model cache\<close>

text \<open>
  C8. A second \<open>ensure_model\<close> on an unchanged catalog is claimed not to refit, also
  when the catalog is empty. \<open>ensure_model\<close> takes a missing matrix for "never fit",
  and \<open>fit\<close> on the empty catalog leaves the matrix missing: starting from the initial
  process state, two calls on the empty catalog run \<open>fit\<close> twice (the model itself is
  the same after both).
\<close>

theorem C8_empty_catalog_refits:
  "(let db = \<lparr>movies_table = [], ratings_table = []\<rparr>;
        st1 = snd (ensure_model lib db initial_process);
        st2 = snd (ensure_model lib db st1)
    in fit_calls st1 = 1 \<and> fit_calls st2 = 2 \<and> recommender st2 = recommender st1)"
  by (simp add: ensure_model_def fit_def initial_process_def initial_recommender_def Let_def)

section \<open>Cold start\<close>

text \<open>
  C10. For a user without ratings \<open>recommend_for_user\<close> returns the popularity ranking
  and the process state it was given: the cached model (identifier list and matrix) is
  untouched and neither \<open>fit\<close> nor \<open>scores_for_movies\<close> has been called, whatever the
  state was before, the never-fit initial state included.
\<close>

theorem C10_cold_start_frame:
  assumes "user_ratings db uid = []"
  shows "recommend_for_user lib db st uid limit = (Inr (popularity_ranking db limit), st)"
  using assms by (rule recommend_cold_start)

theorem C10_cold_start_frame_witness:
  "user_ratings demo_db 7 = [] \<and>
   recommend_for_user demo_sklearn demo_db initial_process 7 2
     = (Inr [(mk_movie 3 ''Romance Story'' (Some 9), 9), (mk_movie 1 ''Space War'' (Some 5), 5)],
        initial_process)"
proof -
  have h: "user_ratings demo_db 7 = []"
    by (simp add: user_ratings_def demo_db_def mk_rating_def)
  have p: "popularity_ranking demo_db 2
             = [(mk_movie 3 ''Romance Story'' (Some 9), 9), (mk_movie 1 ''Space War'' (Some 5), 5)]"
    by (simp add: popularity_ranking_def demo_db_def demo_catalog_def order_by_popularity_desc_def
         sort_desc_def mk_movie_def or_zero_def)
  show ?thesis using h p C10_cold_start_frame [OF h, of demo_sklearn initial_process 2] by simp
qed

section \<open>Popularity fallback\<close>

text \<open>
  C4. For a user without ratings, and for a user whose score map comes back empty,
  \<open>recommend_for_user\<close> returns the first \<open>limit\<close> rows of the catalog in descending
  order of popularity (a rearrangement of the catalog, rows without popularity last),
  each paired with its popularity, 0 when it has none. In the case without ratings the
  process state is returned as it was: nothing was fit and no similarity was computed.
\<close>

theorem C4_popularity_fallback:
  assumes "user_ratings db uid = [] \<or> personal_scores lib db st uid = Inr []"
  shows "fst (recommend_for_user lib db st uid limit)
           = Inr (map (\<lambda>m. (m, or_zero (popularity m)))
                   (take limit (order_by_popularity_desc (movies_table db))))
         \<and> mset (order_by_popularity_desc (movies_table db)) = mset (movies_table db)
         \<and> sorted_wrt (\<lambda>a b. popularity b \<le> popularity a) (order_by_popularity_desc (movies_table db))
         \<and> (user_ratings db uid = [] \<longrightarrow> snd (recommend_for_user lib db st uid limit) = st)"
proof -
  have "fst (recommend_for_user lib db st uid limit) = Inr (popularity_ranking db limit)"
  proof (cases "user_ratings db uid = []")
    case True
    then show ?thesis by (simp add: recommend_cold_start)
  next
    case False
    with assms have "personal_scores lib db st uid = Inr []" by simp
    with False show ?thesis by (simp add: recommend_personal)
  qed
  moreover have "mset (order_by_popularity_desc (movies_table db)) = mset (movies_table db)"
    by (simp add: order_by_popularity_desc_def mset_sort_desc)
  ultimately show ?thesis
    by (simp add: popularity_ranking_def Let_def sorted_order_by_popularity recommend_cold_start)
qed

theorem C4_popularity_fallback_witness:
  "user_ratings demo_db 7 = []
   \<and> recommend_for_user demo_sklearn demo_db initial_process 7 2
       = (Inr [(mk_movie 3 ''Romance Story'' (Some 9), 9), (mk_movie 1 ''Space War'' (Some 5), 5)],
          initial_process)
   \<and> user_ratings demo_db 2 \<noteq> []
   \<and> personal_scores demo_sklearn demo_db initial_process 2 = Inr []
   \<and> fst (recommend_for_user demo_sklearn demo_db initial_process 2 2)
       = Inr [(mk_movie 3 ''Romance Story'' (Some 9), 9), (mk_movie 1 ''Space War'' (Some 5), 5)]"
proof -
  have a: "user_ratings demo_db 7 = []"
    by (simp add: demo_defs user_ratings_def)
  have b: "user_ratings demo_db 2 \<noteq> []"
    by (simp add: demo_defs user_ratings_def)
  note c = demo_scores_user2
  from a have a': "user_ratings demo_db 7 = [] \<or> personal_scores demo_sklearn demo_db initial_process 7 = Inr []" ..
  from c have c': "user_ratings demo_db 2 = [] \<or> personal_scores demo_sklearn demo_db initial_process 2 = Inr []" ..
  show ?thesis
    using a b c C4_popularity_fallback [OF a', of 2] C4_popularity_fallback [OF c', of 2]
    by (simp add: demo_ranking prod_eq_iff)
qed

section \<open>The personalised branch\<close>





section \<open>fit\<close>



end
